theory Spec2Isabelle
  imports Complex_Main "HOL-Library.Word" "HOL-Library.AList" "HOL-Library.Sublist"
begin

section \<open>JavaScript values\<close>

text \<open>
  The values \<open>JSON.parse\<close> can return. An object is the list of its own properties
  (keys distinct, as the parser leaves them). \<open>undefined\<close>, which JSON cannot express,
  is \<open>None\<close> of \<open>json option\<close>. Strings are lists of code units below 256.
\<close>

datatype json =
    JNull
  | JBool bool
  | JNum rat
  | JStr string
  | JArr "json list"
  | JObj "(string \<times> json) list"

datatype js_error =
    Error string
  | TypeError
  | RangeError
  | InvalidCharacterError
  | NotSupportedError
  | ServiceError string

text \<open>Truthiness, as \<open>!v\<close> and \<open>v || d\<close> test it.\<close>

fun truthy :: "json \<Rightarrow> bool" where
  "truthy JNull = False"
| "truthy (JBool b) = b"
| "truthy (JNum n) = (n \<noteq> 0)"
| "truthy (JStr s) = (s \<noteq> [])"
| "truthy (JArr xs) = True"
| "truthy (JObj kvs) = True"

text \<open>\<open>a || d\<close> where \<open>a\<close> may be \<open>undefined\<close>.\<close>

fun js_or :: "json option \<Rightarrow> json \<Rightarrow> json" where
  "js_or None d = d"
| "js_or (Some a) d = (if truthy a then a else d)"

text \<open>
  \<open>v.k\<close> for the property names this program reads (title, description, modules, nodes,
  links), none of which a built-in prototype defines: reading a property of \<open>null\<close>
  throws a TypeError, of an object gives its own property or \<open>undefined\<close>, of any other
  value gives \<open>undefined\<close>.
\<close>

fun js_get :: "json \<Rightarrow> string \<Rightarrow> js_error + json option" where
  "js_get JNull k = Inl TypeError"
| "js_get (JObj kvs) k = Inr (map_of kvs k)"
| "js_get v k = Inr None"

text \<open>\<open>Array.isArray(a) ? a : []\<close> where \<open>a\<close> may be \<open>undefined\<close>.\<close>

fun array_or_empty :: "json option \<Rightarrow> json list" where
  "array_or_empty (Some (JArr xs)) = xs"
| "array_or_empty v = []"

section \<open>services/geminiService.ts: safeParseJSON\<close>

text \<open>\<open>\s\<close> of a regular expression and the set \<open>trim()\<close> strips, among code units below 256.\<close>

definition is_space :: "char \<Rightarrow> bool" where
  "is_space c = (c \<in> {CHR 0x09, CHR 0x0A, CHR 0x0B, CHR 0x0C, CHR 0x0D, CHR 0x20, CHR 0xA0})"

text \<open>
  \<open>text.replace(/```json\s*|\s*```/g, "")\<close>: at each position, left to right, the first
  alternative is tried, then the second; a match is deleted and the scan goes on behind
  it; where neither matches, the character is kept.
\<close>

function replace_fences :: "string \<Rightarrow> string" where
  "replace_fences [] = []"
| "replace_fences (c # cs) =
     (if prefix ''```json'' (c # cs)
        then replace_fences (dropWhile is_space (drop 7 (c # cs)))
      else if prefix ''```'' (dropWhile is_space (c # cs))
        then replace_fences (drop 3 (dropWhile is_space (c # cs)))
      else c # replace_fences cs)"
  by pat_completeness auto
termination
proof (relation "measure length", goal_cases)
  case 1
  show ?case by simp
next
  case (2 c cs)
  have "length (dropWhile is_space (drop 7 (c # cs))) \<le> length (drop 7 (c # cs))"
    by (rule length_dropWhile_le)
  then show ?case by simp
next
  case (3 c cs)
  have "length (dropWhile is_space (c # cs)) \<le> length (c # cs)"
    by (rule length_dropWhile_le)
  moreover from 3 have "3 \<le> length (dropWhile is_space (c # cs))"
    using prefix_length_le by fastforce
  ultimately show ?case by simp
next
  case 4
  show ?case by simp
qed

declare replace_fences.simps [simp del]

definition trim :: "string \<Rightarrow> string" where
  "trim s = rev (dropWhile is_space (rev (dropWhile is_space s)))"

definition cleaned :: "string \<Rightarrow> string" where
  "cleaned t = trim (replace_fences t)"

text \<open>
  \<open>safeParseJSON\<close>. \<open>JSON.parse\<close> is the platform's and is a parameter: \<open>None\<close> where it
  throws. The run returns the value together with the texts handed to \<open>JSON.parse\<close>,
  in order; \<open>null\<close> is the value of a failure.
\<close>

definition safeParseJSON_run :: "(string \<Rightarrow> json option) \<Rightarrow> string option \<Rightarrow> json \<times> string list" where
  "safeParseJSON_run JSON_parse text =
     (case text of
        None \<Rightarrow> (JNull, [])
      | Some t \<Rightarrow>
          if t = [] then (JNull, [])
          else (case JSON_parse t of
                  Some v \<Rightarrow> (v, [t])
                | None \<Rightarrow>
                    (case JSON_parse (cleaned t) of
                       Some v \<Rightarrow> (v, [t, cleaned t])
                     | None \<Rightarrow> (JNull, [t, cleaned t]))))"

definition safeParseJSON :: "(string \<Rightarrow> json option) \<Rightarrow> string option \<Rightarrow> json" where
  "safeParseJSON JSON_parse text = fst (safeParseJSON_run JSON_parse text)"

section \<open>services/geminiService.ts: the calls to the external service\<close>

text \<open>
  A request names the model, carries the document and the instruction, and the parts of
  the configuration that vary between the calls. The response schemas, which only the
  service reads, are left out; the fixed prose of each instruction is given by its first
  sentence.
\<close>

datatype part = InlineData string string | Text string

record request =
  model :: string
  parts :: "part list"
  thinkingBudget :: "nat option"
  responseMimeType :: "string option"

text \<open>
  What awaiting \<open>ai.models.generateContent\<close> gives: a rejection (\<open>Inl\<close>), or a response
  whose \<open>text\<close> is a string or \<open>undefined\<close>. The service is a parameter of every call.
\<close>

type_synonym reply = "js_error + string option"

type_synonym service = "request \<Rightarrow> reply"

datatype ContentDepth = SUMMARY | STANDARD | DEEP_DIVE

record CourseStructure =
  title :: json
  description :: json
  modules :: "json list"

definition parseSyllabus_request :: "string \<Rightarrow> request" where
  "parseSyllabus_request fileBase64 =
     \<lparr>model = ''gemini-3-flash-preview'',
      parts = [InlineData ''application/pdf'' fileBase64,
               Text ''Analyze this syllabus PDF. Extract the course structure into a strictly formatted JSON object.''],
      thinkingBudget = None,
      responseMimeType = Some ''application/json''\<rparr>"

definition parseSyllabus :: "(string \<Rightarrow> json option) \<Rightarrow> service \<Rightarrow> string \<Rightarrow> js_error + CourseStructure" where
  "parseSyllabus JSON_parse ai fileBase64 =
     (case ai (parseSyllabus_request fileBase64) of
        Inl e \<Rightarrow> Inl e
      | Inr response_text \<Rightarrow>
          (let parsed = safeParseJSON JSON_parse response_text in
           if \<not> truthy parsed
             then Inl (Error ''Failed to parse syllabus structure. The response might be incomplete or invalid.'')
           else
             (case js_get parsed ''title'' of
                Inl e \<Rightarrow> Inl e
              | Inr t \<Rightarrow>
                  (case js_get parsed ''description'' of
                     Inl e \<Rightarrow> Inl e
                   | Inr d \<Rightarrow>
                       (case js_get parsed ''modules'' of
                          Inl e \<Rightarrow> Inl e
                        | Inr m \<Rightarrow>
                            Inr \<lparr>title = js_or t (JStr ''Untitled Course''),
                                 description = js_or d (JStr []),
                                 modules = array_or_empty m\<rparr>)))))"

fun depthInstruction :: "ContentDepth \<Rightarrow> string" where
  "depthInstruction SUMMARY =
     ''Provide a high-level summary with bullet points and key terms only. Be concise.''"
| "depthInstruction DEEP_DIVE =
     ''Provide an academic deep dive. Expand on every point with rigorous detail, examples, analogies, and theoretical background. Cite concepts where appropriate.''"
| "depthInstruction STANDARD =
     ''Provide a standard comprehensive lesson note. Balance clear explanations with sufficient detail.''"

text \<open>\<open>topics.join(", ")\<close>.\<close>

fun join_comma :: "string list \<Rightarrow> string" where
  "join_comma [] = []"
| "join_comma [t] = t"
| "join_comma (t # ts) = t @ '', '' @ join_comma ts"

definition lesson_request :: "string \<Rightarrow> string \<Rightarrow> string list \<Rightarrow> ContentDepth \<Rightarrow> request" where
  "lesson_request syllabusBase64 moduleTitle topics depth =
     \<lparr>model = (if depth = DEEP_DIVE then ''gemini-3-pro-preview'' else ''gemini-3-flash-preview''),
      parts = [InlineData ''application/pdf'' syllabusBase64,
               Text (''You are an expert tutor. Create a lesson content for the module: '' @ moduleTitle
                     @ ''. Focus on these topics: '' @ join_comma topics
                     @ ''. '' @ depthInstruction depth)],
      thinkingBudget = (if depth = DEEP_DIVE then Some 8192 else None),
      responseMimeType = None\<rparr>"

text \<open>\<open>return response.text || "Failed to generate content."\<close>\<close>

definition generateLessonContent :: "service \<Rightarrow> string \<Rightarrow> string \<Rightarrow> string list \<Rightarrow> ContentDepth \<Rightarrow> js_error + string" where
  "generateLessonContent ai syllabusBase64 moduleTitle topics depth =
     (case ai (lesson_request syllabusBase64 moduleTitle topics depth) of
        Inl e \<Rightarrow> Inl e
      | Inr response_text \<Rightarrow>
          (case response_text of
             None \<Rightarrow> Inr ''Failed to generate content.''
           | Some t \<Rightarrow> Inr (if t \<noteq> [] then t else ''Failed to generate content.'')))"

record KnowledgeGraphJSON =
  nodes :: "json list"
  links :: "json list"

definition graph_request :: "string \<Rightarrow> request" where
  "graph_request syllabusBase64 =
     \<lparr>model = ''gemini-3-flash-preview'',
      parts = [InlineData ''application/pdf'' syllabusBase64,
               Text ''Generate a knowledge graph representation of this course.''],
      thinkingBudget = None,
      responseMimeType = Some ''application/json''\<rparr>"

text \<open>
  The whole body stands in \<open>try\<close>; the \<open>catch\<close> returns the empty graph for a rejection
  and for anything thrown while the response is shaped.
\<close>

definition generateKnowledgeGraph :: "(string \<Rightarrow> json option) \<Rightarrow> service \<Rightarrow> string \<Rightarrow> KnowledgeGraphJSON" where
  "generateKnowledgeGraph JSON_parse ai syllabusBase64 =
     (case ai (graph_request syllabusBase64) of
        Inl e \<Rightarrow> \<lparr>nodes = [], links = []\<rparr>
      | Inr response_text \<Rightarrow>
          (let parsed = js_or (Some (safeParseJSON JSON_parse response_text)) (JObj []) in
           case js_get parsed ''nodes'' of
             Inl e \<Rightarrow> \<lparr>nodes = [], links = []\<rparr>
           | Inr ns \<Rightarrow>
               (case js_get parsed ''links'' of
                  Inl e \<Rightarrow> \<lparr>nodes = [], links = []\<rparr>
                | Inr ls \<Rightarrow> \<lparr>nodes = array_or_empty ns, links = array_or_empty ls\<rparr>)))"

definition exam_request :: "string \<Rightarrow> string \<Rightarrow> request" where
  "exam_request syllabusBase64 moduleTitle =
     \<lparr>model = ''gemini-3-pro-preview'',
      parts = [InlineData ''application/pdf'' syllabusBase64,
               Text (''Generate a 5-question multiple choice exam for the module: '' @ moduleTitle)],
      thinkingBudget = Some 4096,
      responseMimeType = Some ''application/json''\<rparr>"

definition generateExam :: "(string \<Rightarrow> json option) \<Rightarrow> service \<Rightarrow> string \<Rightarrow> string \<Rightarrow> json list" where
  "generateExam JSON_parse ai syllabusBase64 moduleTitle =
     (case ai (exam_request syllabusBase64 moduleTitle) of
        Inl e \<Rightarrow> []
      | Inr response_text \<Rightarrow>
          array_or_empty (Some (js_or (Some (safeParseJSON JSON_parse response_text)) (JArr []))))"

text \<open>
  \<open>generateAudioLesson\<close> returns the inline data of the first part of the first
  candidate, or \<open>undefined\<close>; a rejection is not caught. The speech service is a
  parameter that gives that field.
\<close>

type_synonym speech_service = "string \<Rightarrow> js_error + string option"

definition generateAudioLesson :: "speech_service \<Rightarrow> string \<Rightarrow> js_error + string option" where
  "generateAudioLesson tts textToSpeak = tts textToSpeak"

section \<open>utils/audioUtils.ts\<close>

text \<open>
  An audio buffer: its sample rate and one list of samples for each channel. A sample
  is a rational: every value the decoder writes, a 16-bit integer over 32768, is a
  binary32 number, so the store into the Float32Array does not round.
\<close>

record AudioBuffer =
  sampleRate :: nat
  channels :: "rat list list"

text \<open>
  The platform: \<open>atob\<close> gives the binary string, here the list of its character codes,
  or throws; \<open>createBuffer\<close> gives a buffer or throws. Both are parameters.
\<close>

type_synonym atob_fun = "string \<Rightarrow> js_error + nat list"

type_synonym createBuffer_fun = "nat \<Rightarrow> nat \<Rightarrow> nat \<Rightarrow> js_error + AudioBuffer"

text \<open>\<open>bytes[i] = binaryString.charCodeAt(i)\<close>, for each index.\<close>

definition bytes_of_binary :: "nat list \<Rightarrow> 8 word list" where
  "bytes_of_binary binaryString = map of_nat binaryString"

text \<open>
  \<open>new Int16Array(bytes.buffer)\<close>: a RangeError when the byte length is odd, else the
  16-bit elements, low byte first.
\<close>

fun int16_elements :: "8 word list \<Rightarrow> 16 word list" where
  "int16_elements (lo # hi # rest) = word_cat hi lo # int16_elements rest"
| "int16_elements rest = []"

definition Int16Array :: "8 word list \<Rightarrow> js_error + 16 word list" where
  "Int16Array bytes = (if odd (length bytes) then Inl RangeError else Inr (int16_elements bytes))"

text \<open>The loop \<open>for (i = 0; i < frameCount; i++) channelData[i] = dataInt16[i] / 32768.0\<close>.\<close>

function fill_channel :: "16 word list \<Rightarrow> nat \<Rightarrow> nat \<Rightarrow> rat list \<Rightarrow> rat list" where
  "fill_channel dataInt16 frameCount i channelData =
     (if i < frameCount
        then fill_channel dataInt16 frameCount (Suc i)
               (channelData[i := rat_of_int (sint (dataInt16 ! i)) / 32768])
      else channelData)"
  by pat_completeness auto
termination
  by (relation "measure (\<lambda>(dataInt16, frameCount, i, channelData). frameCount - i)") auto

declare fill_channel.simps [simp del]

definition decodeAudioData :: "atob_fun \<Rightarrow> createBuffer_fun \<Rightarrow> string \<Rightarrow> nat \<Rightarrow> js_error + AudioBuffer" where
  "decodeAudioData atob createBuffer base64String rate =
     (case atob base64String of
        Inl e \<Rightarrow> Inl e
      | Inr binaryString \<Rightarrow>
          (case Int16Array (bytes_of_binary binaryString) of
             Inl e \<Rightarrow> Inl e
           | Inr dataInt16 \<Rightarrow>
               (let numChannels = 1;
                    frameCount = length dataInt16 div numChannels
                in case createBuffer numChannels frameCount rate of
                     Inl e \<Rightarrow> Inl e
                   | Inr buffer \<Rightarrow>
                       (case channels buffer of
                          [] \<Rightarrow> Inl (Error ''getChannelData: index out of range'')
                        | channelData # others \<Rightarrow>
                            Inr (buffer\<lparr>channels :=
                                   fill_channel dataInt16 frameCount 0 channelData # others\<rparr>)))))"

text \<open>
  An audio context is the list of the source nodes created in it. A started source
  plays until its buffer ends or \<open>stop\<close> is called on it.
\<close>

datatype playback = Unstarted | Playing | Ended

record AudioBufferSourceNode =
  source_buffer :: "AudioBuffer option"
  connected :: bool
  playback :: playback

type_synonym AudioContext = "AudioBufferSourceNode list"

text \<open>\<open>playAudioBuffer\<close> returns the handle (the index of the new source) and the context.\<close>

definition playAudioBuffer :: "AudioBuffer \<Rightarrow> AudioContext \<Rightarrow> nat \<times> AudioContext" where
  "playAudioBuffer buffer audioContext =
     (let source = \<lparr>source_buffer = None, connected = False, playback = Unstarted\<rparr>;
          source = source\<lparr>source_buffer := Some buffer\<rparr>;
          source = source\<lparr>connected := True\<rparr>;
          source = source\<lparr>playback := Playing\<rparr>
      in (length audioContext, audioContext @ [source]))"

text \<open>The sources that sound: started, connected to the destination, not ended.\<close>

definition sounding :: "AudioContext \<Rightarrow> AudioBufferSourceNode list" where
  "sounding audioContext = filter (\<lambda>s. playback s = Playing \<and> connected s) audioContext"

text \<open>A source reaches the end of its buffer (the platform's doing).\<close>

definition source_ended :: "nat \<Rightarrow> AudioContext \<Rightarrow> AudioContext" where
  "source_ended i audioContext =
     (if i < length audioContext \<and> playback (audioContext ! i) = Playing
        then audioContext[i := (audioContext ! i)\<lparr>playback := Ended\<rparr>]
      else audioContext)"

section \<open>The application component (App): lesson content and the audio tutor\<close>

record CourseModule =
  module_id :: string
  module_title :: string
  module_topics :: "string list"
  learningObjectives :: "string list"

text \<open>The arguments of a call of \<open>generateLessonContent\<close> whose promise is not settled yet.\<close>

record lesson_call =
  call_syllabus :: string
  call_title :: string
  call_topics :: "string list"
  call_depth :: ContentDepth

text \<open>
  The state the lesson and audio handlers read and write, and the promises in flight:
  the lesson calls in the order they were issued, and the text of a speech request.
\<close>

record App =
  syllabusFile :: "string option"
  activeModule :: "CourseModule option"
  lessonContent :: string
  contentDepth :: ContentDepth
  loadingContent :: bool
  loadingAudio :: bool
  audioContextRef :: "AudioContext option"
  lessons_in_flight :: "lesson_call list"
  speech_in_flight :: "string option"

record platform =
  gemini :: service
  speech :: speech_service
  window_atob :: atob_fun
  context_createBuffer :: createBuffer_fun

definition initial_App :: App where
  "initial_App =
     \<lparr>syllabusFile = None, activeModule = None, lessonContent = [], contentDepth = STANDARD,
      loadingContent = False, loadingAudio = False, audioContextRef = None,
      lessons_in_flight = [], speech_in_flight = None\<rparr>"

text \<open>
  The effect on \<open>[contentDepth]\<close>, run after a render in which the depth has changed:
  with an active module and a syllabus it issues a lesson call for the new depth.
\<close>

definition depth_effect :: "App \<Rightarrow> App" where
  "depth_effect s =
     (case (activeModule s, syllabusFile s) of
        (Some m, Some f) \<Rightarrow>
          if f = [] then s
          else s\<lparr>loadingContent := True,
                 lessons_in_flight := lessons_in_flight s @
                   [\<lparr>call_syllabus = f, call_title = module_title m,
                     call_topics = module_topics m, call_depth = contentDepth s\<rparr>]\<rparr>
      | _ \<Rightarrow> s)"

text \<open>\<open>setContentDepth(d)\<close>: setting the state to its own value renders nothing.\<close>

definition setContentDepth :: "ContentDepth \<Rightarrow> App \<Rightarrow> App" where
  "setContentDepth d s = (if d = contentDepth s then s else depth_effect (s\<lparr>contentDepth := d\<rparr>))"

definition handleModuleSelect :: "CourseModule \<Rightarrow> App \<Rightarrow> App" where
  "handleModuleSelect m s =
     (let s = s\<lparr>activeModule := Some m, loadingContent := True\<rparr>
      in case syllabusFile s of
           None \<Rightarrow> s\<lparr>loadingContent := False\<rparr>
         | Some f \<Rightarrow>
             if f = [] then s\<lparr>loadingContent := False\<rparr>
             else s\<lparr>lessons_in_flight := lessons_in_flight s @
                      [\<lparr>call_syllabus = f, call_title = module_title m,
                        call_topics = module_topics m, call_depth = contentDepth s\<rparr>]\<rparr>)"

text \<open>
  The promise of the \<open>i\<close>-th call in flight settles: \<open>.then(setLessonContent)\<close> (or the
  assignment after \<open>await\<close>) stores a fulfilled result, a rejection stores nothing, and
  \<open>finally\<close> clears the loading flag. Nothing compares the call with the current depth
  or module, and nothing cancels a call.
\<close>

definition lesson_settled :: "platform \<Rightarrow> nat \<Rightarrow> App \<Rightarrow> App" where
  "lesson_settled p i s =
     (if i < length (lessons_in_flight s) then
        (let c = lessons_in_flight s ! i;
             s = s\<lparr>lessons_in_flight := take i (lessons_in_flight s) @ drop (Suc i) (lessons_in_flight s)\<rparr>
         in case generateLessonContent (gemini p) (call_syllabus c) (call_title c) (call_topics c) (call_depth c) of
              Inl e \<Rightarrow> s\<lparr>loadingContent := False\<rparr>
            | Inr content \<Rightarrow> s\<lparr>lessonContent := content, loadingContent := False\<rparr>)
      else s)"

text \<open>\<open>initAudio\<close>, on a click anywhere in the window.\<close>

definition initAudio :: "App \<Rightarrow> App" where
  "initAudio s = (case audioContextRef s of None \<Rightarrow> s\<lparr>audioContextRef := Some []\<rparr> | Some c \<Rightarrow> s)"

text \<open>
  \<open>playAudioTutor\<close> up to its first \<open>await\<close>. The button is disabled while
  \<open>loadingAudio || !lessonContent\<close>.
\<close>

definition playAudioTutor_click :: "App \<Rightarrow> App" where
  "playAudioTutor_click s =
     (if loadingAudio s \<or> lessonContent s = [] then s
      else s\<lparr>loadingAudio := True, speech_in_flight := Some (take 500 (lessonContent s))\<rparr>)"

text \<open>
  \<open>playAudioTutor\<close> from the settling of the speech request on. The handle that
  \<open>playAudioBuffer\<close> returns is dropped.
\<close>

definition playAudioTutor_settled :: "platform \<Rightarrow> App \<Rightarrow> App" where
  "playAudioTutor_settled p s =
     (case speech_in_flight s of
        None \<Rightarrow> s
      | Some textToRead \<Rightarrow>
          (let s = s\<lparr>speech_in_flight := None\<rparr>
           in case generateAudioLesson (speech p) textToRead of
                Inl e \<Rightarrow> s\<lparr>loadingAudio := False\<rparr>
              | Inr audioBase64 \<Rightarrow>
                  (case (audioBase64, audioContextRef s) of
                     (Some b64, Some ctx) \<Rightarrow>
                       if b64 = [] then s\<lparr>loadingAudio := False\<rparr>
                       else
                         (case decodeAudioData (window_atob p) (context_createBuffer p) b64 24000 of
                            Inl e \<Rightarrow> s\<lparr>loadingAudio := False\<rparr>
                          | Inr buffer \<Rightarrow>
                              s\<lparr>audioContextRef := Some (snd (playAudioBuffer buffer ctx)),
                                loadingAudio := False\<rparr>)
                   | _ \<Rightarrow> s\<lparr>loadingAudio := False\<rparr>)))"

datatype event =
    SetContentDepth ContentDepth
  | ModuleSelect CourseModule
  | LessonSettled nat
  | WindowClick
  | AudioTutorClick
  | SpeechSettled
  | SourceEnded nat

fun step :: "platform \<Rightarrow> App \<Rightarrow> event \<Rightarrow> App" where
  "step p s (SetContentDepth d) = setContentDepth d s"
| "step p s (ModuleSelect m) = handleModuleSelect m s"
| "step p s (LessonSettled i) = lesson_settled p i s"
| "step p s WindowClick = initAudio s"
| "step p s AudioTutorClick = playAudioTutor_click s"
| "step p s SpeechSettled = playAudioTutor_settled p s"
| "step p s (SourceEnded i) = s\<lparr>audioContextRef := map_option (source_ended i) (audioContextRef s)\<rparr>"

definition run :: "platform \<Rightarrow> App \<Rightarrow> event list \<Rightarrow> App" where
  "run p s evs = foldl (step p) s evs"

text \<open>How many sources sound in a state.\<close>

definition sounding_count :: "App \<Rightarrow> nat" where
  "sounding_count s = (case audioContextRef s of None \<Rightarrow> 0 | Some c \<Rightarrow> length (sounding c))"

section \<open>components/ExamModal.tsx\<close>

record ExamQuestion =
  q_id :: int
  question :: string
  options :: "string list"
  correctAnswerIndex :: int
  explanation :: string

text \<open>
  The component's state. \<open>answers\<close> is an object whose keys are question ids: the list of
  its own properties, one entry for each key.
\<close>

record ExamModal =
  answers :: "(int \<times> int) list"
  submitted :: bool

definition initial_ExamModal :: ExamModal where
  "initial_ExamModal = \<lparr>answers = [], submitted = False\<rparr>"

text \<open>\<open>setAnswers(prev => ({ ...prev, [qId]: optionIdx }))\<close>, unless submitted.\<close>

definition handleSelect :: "int \<Rightarrow> int \<Rightarrow> ExamModal \<Rightarrow> ExamModal" where
  "handleSelect qId optionIdx st =
     (if submitted st then st else st\<lparr>answers := AList.update qId optionIdx (answers st)\<rparr>)"

text \<open>The \<open>forEach\<close> of \<open>calculateScore\<close>; \<open>answers[q.id]\<close> is \<open>undefined\<close> for a missing key.\<close>

definition calculateScore :: "ExamQuestion list \<Rightarrow> ExamModal \<Rightarrow> nat" where
  "calculateScore questions st =
     fold (\<lambda>q score. if map_of (answers st) (q_id q) = Some (correctAnswerIndex q) then score + 1 else score)
       questions 0"

text \<open>\<open>disabled={Object.keys(answers).length !== questions.length}\<close>\<close>

definition submit_disabled :: "ExamQuestion list \<Rightarrow> ExamModal \<Rightarrow> bool" where
  "submit_disabled questions st = (length (remdups (map fst (answers st))) \<noteq> length questions)"

text \<open>
  The clicks the rendered modal accepts: on option \<open>oIdx\<close> of the question at position
  \<open>idx\<close> (a button exists for each option of each question), and on Submit, which is
  rendered while not submitted and acts unless disabled.
\<close>

datatype exam_event = OptionClick nat nat | SubmitClick

fun exam_step :: "ExamQuestion list \<Rightarrow> ExamModal \<Rightarrow> exam_event \<Rightarrow> ExamModal" where
  "exam_step questions st (OptionClick idx oIdx) =
     (if idx < length questions \<and> oIdx < length (options (questions ! idx))
        then handleSelect (q_id (questions ! idx)) (int oIdx) st
      else st)"
| "exam_step questions st SubmitClick =
     (if \<not> submitted st \<and> \<not> submit_disabled questions st then st\<lparr>submitted := True\<rparr> else st)"

definition exam_run :: "ExamQuestion list \<Rightarrow> exam_event list \<Rightarrow> ExamModal" where
  "exam_run questions evs = foldl (exam_step questions) initial_ExamModal evs"

section \<open>components/KnowledgeGraph.tsx\<close>

datatype node_status = locked | available | completed

record KnowledgeNode =
  node_id :: string
  node_group :: int
  label :: string
  status :: node_status

record KnowledgeLink =
  source :: string
  target :: string
  link_value :: rat

record KnowledgeGraphData =
  graph_nodes :: "KnowledgeNode list"
  graph_links :: "KnowledgeLink list"

text \<open>
  What the effect hands to the layout library: the nodes of \<open>forceSimulation\<close>, the links
  of \<open>forceLink\<close> with its distance, the charge strength and the centre.
\<close>

record simulation =
  sim_nodes :: "KnowledgeNode list"
  sim_links :: "KnowledgeLink list"
  link_distance :: nat
  charge_strength :: int
  center :: "rat \<times> rat"

text \<open>
  The effect of the component: nothing without the SVG element (whose client width is
  the argument) or without nodes; else the nodes and the links are copied element by
  element (\<open>map(d => ({ ...d }))\<close>) and given to the simulation.
\<close>

definition KnowledgeGraph_effect :: "nat option \<Rightarrow> KnowledgeGraphData \<Rightarrow> simulation option" where
  "KnowledgeGraph_effect svgRef d =
     (case svgRef of
        None \<Rightarrow> None
      | Some width \<Rightarrow>
          if length (graph_nodes d) = 0 then None
          else
            (let height = 400;
                 nodes = map (\<lambda>n. n) (graph_nodes d);
                 links = map (\<lambda>l. l) (graph_links d)
             in Some \<lparr>sim_nodes = nodes, sim_links = links, link_distance = 100,
                      charge_strength = - 300, center = (rat_of_nat width / 2, height / 2)\<rparr>))"

text \<open>An edge whose source and target are ids of nodes of the list.\<close>

definition link_resolves :: "KnowledgeNode list \<Rightarrow> KnowledgeLink \<Rightarrow> bool" where
  "link_resolves ns l = (source l \<in> node_id ` set ns \<and> target l \<in> node_id ` set ns)"

section \<open>Reference implementations of platform functions, for evaluating examples\<close>

text \<open>
  A parser for the fragment of JSON without escapes in strings and without fractions
  or exponents in numbers; on that fragment it returns what \<open>JSON.parse\<close> returns, and
  like it rejects any text that is not JSON. The fuel bounds the nesting and the number
  of members; the length of the text is enough. The theorems below hold for every
  parser; the examples are evaluated with this one.
\<close>

definition json_ws :: "char \<Rightarrow> bool" where
  "json_ws c = (c \<in> {CHR 0x20, CHR 0x09, CHR 0x0A, CHR 0x0D})"

definition is_digit :: "char \<Rightarrow> bool" where
  "is_digit c = (c \<in> set ''0123456789'')"

definition nat_of_digits :: "string \<Rightarrow> nat" where
  "nat_of_digits ds = foldl (\<lambda>a c. 10 * a + (of_char c - 48)) 0 ds"

fun ref_string :: "string \<Rightarrow> (string \<times> string) option" where
  "ref_string [] = None"
| "ref_string (c # cs) =
     (if c = CHR 0x22 then Some ([], cs)
      else if c = CHR 0x5C \<or> (of_char c :: nat) < 32 then None
      else map_option (\<lambda>(s, r). (c # s, r)) (ref_string cs))"

definition ref_number :: "string \<Rightarrow> (json \<times> string) option" where
  "ref_number s =
     (let neg = prefix ''-'' s;
          r = (if neg then drop 1 s else s);
          ds = takeWhile is_digit r;
          n = rat_of_nat (nat_of_digits ds)
      in if ds = [] \<or> (1 < length ds \<and> prefix ''0'' ds) then None
         else Some (JNum (if neg then - n else n), dropWhile is_digit r))"

fun ref_value :: "nat \<Rightarrow> string \<Rightarrow> (json \<times> string) option"
and ref_members :: "nat \<Rightarrow> (string \<times> json) list \<Rightarrow> string \<Rightarrow> (json \<times> string) option"
and ref_elements :: "nat \<Rightarrow> json list \<Rightarrow> string \<Rightarrow> (json \<times> string) option" where
  "ref_value 0 s = None"
| "ref_value (Suc n) s =
     (case dropWhile json_ws s of
        [] \<Rightarrow> None
      | c # cs \<Rightarrow>
          if c = CHR ''{'' then
            (if prefix ''}'' (dropWhile json_ws cs) then Some (JObj [], drop 1 (dropWhile json_ws cs))
             else ref_members n [] cs)
          else if c = CHR ''['' then
            (if prefix '']'' (dropWhile json_ws cs) then Some (JArr [], drop 1 (dropWhile json_ws cs))
             else ref_elements n [] cs)
          else if c = CHR 0x22 then map_option (\<lambda>(str, r). (JStr str, r)) (ref_string cs)
          else if prefix ''true'' (c # cs) then Some (JBool True, drop 4 (c # cs))
          else if prefix ''false'' (c # cs) then Some (JBool False, drop 5 (c # cs))
          else if prefix ''null'' (c # cs) then Some (JNull, drop 4 (c # cs))
          else ref_number (c # cs))"
| "ref_members 0 acc s = None"
| "ref_members (Suc n) acc s =
     (case dropWhile json_ws s of
        [] \<Rightarrow> None
      | c # cs \<Rightarrow>
          if c \<noteq> CHR 0x22 then None
          else
            (case ref_string cs of
               None \<Rightarrow> None
             | Some (k, r) \<Rightarrow>
                 if \<not> prefix '':'' (dropWhile json_ws r) then None
                 else
                   (case ref_value n (drop 1 (dropWhile json_ws r)) of
                      None \<Rightarrow> None
                    | Some (v, r2) \<Rightarrow>
                        if prefix '','' (dropWhile json_ws r2)
                          then ref_members n (AList.update k v acc) (drop 1 (dropWhile json_ws r2))
                        else if prefix ''}'' (dropWhile json_ws r2)
                          then Some (JObj (AList.update k v acc), drop 1 (dropWhile json_ws r2))
                        else None)))"
| "ref_elements 0 acc s = None"
| "ref_elements (Suc n) acc s =
     (case ref_value n s of
        None \<Rightarrow> None
      | Some (v, r) \<Rightarrow>
          if prefix '','' (dropWhile json_ws r)
            then ref_elements n (acc @ [v]) (drop 1 (dropWhile json_ws r))
          else if prefix '']'' (dropWhile json_ws r)
            then Some (JArr (acc @ [v]), drop 1 (dropWhile json_ws r))
          else None)"

definition JSON_parse_ref :: "string \<Rightarrow> json option" where
  "JSON_parse_ref s =
     (case ref_value (Suc (length s)) s of
        None \<Rightarrow> None
      | Some (v, r) \<Rightarrow> if dropWhile json_ws r = [] then Some v else None)"

text \<open>
  \<open>atob\<close> as the HTML standard defines it (forgiving base64): white space is dropped,
  one or two closing \<open>=\<close> of a text of whole quartets are dropped, a text of length
  1 modulo 4 or with a character outside the alphabet is refused, and the 6-bit groups
  are packed into bytes, the spare bits of the last group discarded.
\<close>

definition b64_alphabet :: string where
  "b64_alphabet = ''ABCDEFGHIJKLMNOPQRSTUVWXYZabcdefghijklmnopqrstuvwxyz0123456789+/''"

definition b64_index :: "char \<Rightarrow> nat" where
  "b64_index c = length (takeWhile (\<lambda>x. x \<noteq> c) b64_alphabet)"

fun b64_bytes :: "nat list \<Rightarrow> nat list" where
  "b64_bytes (a # b # c # d # rest) =
     (let n = ((a * 64 + b) * 64 + c) * 64 + d
      in [n div 65536, n div 256 mod 256, n mod 256] @ b64_bytes rest)"
| "b64_bytes [a, b, c] = (let n = ((a * 64 + b) * 64 + c) div 4 in [n div 256, n mod 256])"
| "b64_bytes [a, b] = [(a * 64 + b) div 16]"
| "b64_bytes rest = []"

definition atob_ref :: atob_fun where
  "atob_ref s =
     (let d = filter (\<lambda>c. c \<notin> {CHR 0x09, CHR 0x0A, CHR 0x0C, CHR 0x0D, CHR 0x20}) s;
          d = (if length d mod 4 = 0
                 then (if take 2 (rev d) = ''=='' then take (length d - 2) d
                       else if take 1 (rev d) = ''='' then take (length d - 1) d
                       else d)
               else d)
      in if length d mod 4 = 1 \<or> \<not> list_all (\<lambda>c. c \<in> set b64_alphabet) d
           then Inl InvalidCharacterError
         else Inr (b64_bytes (map b64_index d)))"

text \<open>
  \<open>createBuffer\<close>: a silent buffer of the given channels, frames and rate; a zero
  argument is refused.
\<close>

definition createBuffer_ref :: createBuffer_fun where
  "createBuffer_ref numChannels frameCount rate =
     (if numChannels = 0 \<or> frameCount = 0 \<or> rate = 0 then Inl NotSupportedError
      else Inr \<lparr>sampleRate = rate, channels = replicate numChannels (replicate frameCount 0)\<rparr>)"

text \<open>
  A service for the examples: it answers a request with the name of the model asked
  for. A speech service for the examples: it answers with the base64 text of the four
  samples 0, 16384, -32768, 32767.
\<close>

definition demo_service :: service where
  "demo_service r = Inr (Some (model r))"

definition demo_speech :: speech_service where
  "demo_speech t = Inr (Some ''AAAAQACA/38='')"

definition demo_platform :: platform where
  "demo_platform = \<lparr>gemini = demo_service, speech = demo_speech, window_atob = atob_ref,
      context_createBuffer = createBuffer_ref\<rparr>"

definition demo_module :: CourseModule where
  "demo_module = \<lparr>module_id = ''m1'', module_title = ''Limits'', module_topics = [''epsilon'', ''delta''],
                   learningObjectives = []\<rparr>"

text \<open>The state after a syllabus is loaded, a module is chosen and its lesson has arrived.\<close>

definition demo_App :: App where
  "demo_App = initial_App\<lparr>syllabusFile := Some ''JVBERi0='', activeModule := Some demo_module,
                            lessonContent := ''# Limits''\<rparr>"

text \<open>An exam of five questions, and a graph with an edge to an unknown node.\<close>

definition demo_questions :: "ExamQuestion list" where
  "demo_questions =
     [\<lparr>q_id = 1, question = ''q1'', options = [''a'', ''b''], correctAnswerIndex = 0, explanation = ''e1''\<rparr>,
      \<lparr>q_id = 2, question = ''q2'', options = [''a'', ''b''], correctAnswerIndex = 1, explanation = ''e2''\<rparr>,
      \<lparr>q_id = 3, question = ''q3'', options = [''a'', ''b''], correctAnswerIndex = 1, explanation = ''e3''\<rparr>,
      \<lparr>q_id = 4, question = ''q4'', options = [''a'', ''b''], correctAnswerIndex = 0, explanation = ''e4''\<rparr>,
      \<lparr>q_id = 5, question = ''q5'', options = [''a'', ''b''], correctAnswerIndex = 0, explanation = ''e5''\<rparr>]"

definition demo_clicks :: "exam_event list" where
  "demo_clicks = [OptionClick 0 0, OptionClick 1 1, OptionClick 2 0, OptionClick 3 1, OptionClick 4 0]"

definition demo_graph :: KnowledgeGraphData where
  "demo_graph =
     \<lparr>graph_nodes = [\<lparr>node_id = ''limits'', node_group = 1, label = ''Limits'', status = available\<rparr>],
      graph_links = [\<lparr>source = ''limits'', target = ''series'', link_value = 1\<rparr>]\<rparr>"

section \<open>Notions of the specification\<close>

text \<open>A stream of 16-bit samples as bytes, low byte first.\<close>

definition pcm16_le :: "16 word list \<Rightarrow> 8 word list" where
  "pcm16_le samples = concat (map (\<lambda>w. [ucast w, ucast (drop_bit 8 w)]) samples)"

text \<open>
  A response that does not parse even after the cleanup: no text, or a text that
  \<open>JSON.parse\<close> refuses both as it is and cleaned. A failed response: a rejected call
  or such a text.
\<close>

definition malformed :: "(string \<Rightarrow> json option) \<Rightarrow> string option \<Rightarrow> bool" where
  "malformed JSON_parse text =
     (case text of None \<Rightarrow> True | Some t \<Rightarrow> t = [] \<or> (JSON_parse t = None \<and> JSON_parse (cleaned t) = None))"

definition failed_response :: "(string \<Rightarrow> json option) \<Rightarrow> reply \<Rightarrow> bool" where
  "failed_response JSON_parse r = (case r of Inl e \<Rightarrow> True | Inr text \<Rightarrow> malformed JSON_parse text)"


section \<open>Lesson generation\<close>

lemma generateLessonContent_cases:
  "generateLessonContent service f t ts d =
     (case service (lesson_request f t ts d) of
        Inl e \<Rightarrow> Inl e
      | Inr None \<Rightarrow> Inr ''Failed to generate content.''
      | Inr (Some x) \<Rightarrow> Inr (if x = [] then ''Failed to generate content.'' else x))"
  by (simp add: generateLessonContent_def split: sum.splits option.splits)

lemma generateLessonContent_nonempty:
  "generateLessonContent service f t ts d = Inr content \<Longrightarrow> content \<noteq> []"
  by (auto simp: generateLessonContent_cases split: sum.splits option.splits if_splits)

text \<open>
  C10: \<open>generateLessonContent\<close> never produces an empty lesson. When the reply of the
  service has an empty or absent text it returns the placeholder
  "Failed to generate content."; every result it returns is a non-empty string; it
  fails only when the call to the service itself is rejected; and when a call in flight
  is fulfilled, the lesson-content slot holds that non-empty result.
\<close>

theorem generateLessonContent_never_empty:
  "(service (lesson_request f t ts d) \<in> {Inr None, Inr (Some [])} \<longrightarrow>
      generateLessonContent service f t ts d = Inr ''Failed to generate content.'')
   \<and> (\<forall>content. generateLessonContent service f t ts d = Inr content \<longrightarrow> content \<noteq> [])
   \<and> (\<forall>e. generateLessonContent service f t ts d = Inl e \<longleftrightarrow> service (lesson_request f t ts d) = Inl e)
   \<and> (i < length (lessons_in_flight s) \<longrightarrow>
        generateLessonContent (gemini p) (call_syllabus (lessons_in_flight s ! i))
          (call_title (lessons_in_flight s ! i)) (call_topics (lessons_in_flight s ! i))
          (call_depth (lessons_in_flight s ! i)) = Inr content' \<longrightarrow>
        lessonContent (lesson_settled p i s) = content' \<and> lessonContent (lesson_settled p i s) \<noteq> [])"
proof (intro conjI allI impI)
  assume "service (lesson_request f t ts d) \<in> {Inr None, Inr (Some [])}"
  then show "generateLessonContent service f t ts d = Inr ''Failed to generate content.''"
    by (auto simp: generateLessonContent_cases)
next
  fix content
  assume "generateLessonContent service f t ts d = Inr content"
  then show "content \<noteq> []" by (rule generateLessonContent_nonempty)
next
  fix e
  show "generateLessonContent service f t ts d = Inl e \<longleftrightarrow> service (lesson_request f t ts d) = Inl e"
    by (auto simp: generateLessonContent_cases split: sum.splits option.splits)
next
  assume i: "i < length (lessons_in_flight s)"
    and g: "generateLessonContent (gemini p) (call_syllabus (lessons_in_flight s ! i))
          (call_title (lessons_in_flight s ! i)) (call_topics (lessons_in_flight s ! i))
          (call_depth (lessons_in_flight s ! i)) = Inr content'"
  from i g show c: "lessonContent (lesson_settled p i s) = content'"
    by (simp add: lesson_settled_def Let_def)
  from g have "content' \<noteq> []" by (rule generateLessonContent_nonempty)
  with c show "lessonContent (lesson_settled p i s) \<noteq> []" by simp
qed

theorem generateLessonContent_never_empty_witness:
  "generateLessonContent (\<lambda>r. Inr (Some [])) ''JVBERi0='' ''Limits'' [''epsilon''] SUMMARY
     = Inr ''Failed to generate content.''"
  using generateLessonContent_never_empty
    [of "\<lambda>r. Inr (Some [])" "''JVBERi0=''" "''Limits''" "[''epsilon'']" SUMMARY]
  by simp

section \<open>The exam score\<close>

lemma fold_score:
  "fold (\<lambda>q score. if P q then score + 1 else score) qs (n::nat) = n + length (filter P qs)"
  by (induction qs arbitrary: n) auto

text \<open>
  C7: for every list of questions and every mapping of answers, the score is the number
  of questions whose selected option index equals the question's correct option index;
  no question adds more than one and none subtracts, so the score is at most the number
  of questions.
\<close>

theorem calculateScore_counts:
  "calculateScore questions st =
     length (filter (\<lambda>q. map_of (answers st) (q_id q) = Some (correctAnswerIndex q)) questions)
   \<and> calculateScore questions st \<le> length questions"
  by (simp add: calculateScore_def fold_score)

text \<open>
  Five questions, each answered, three correctly and two incorrectly, then submitted:
  the score is 3 of 5.
\<close>

theorem calculateScore_counts_witness:
  "calculateScore demo_questions (exam_run demo_questions (demo_clicks @ [SubmitClick])) = 3
   \<and> length demo_questions = 5"
proof -
  have "length (filter (\<lambda>q. map_of (answers (exam_run demo_questions (demo_clicks @ [SubmitClick]))) (q_id q)
                          = Some (correctAnswerIndex q)) demo_questions) = 3"
    by code_simp
  moreover have "length demo_questions = 5"
    by (simp add: demo_questions_def)
  ultimately show ?thesis
    using calculateScore_counts [of demo_questions "exam_run demo_questions (demo_clicks @ [SubmitClick])"]
    by simp
qed

section \<open>Shaping the responses\<close>

lemma js_get_truthy: "truthy v \<Longrightarrow> \<exists>r. js_get v k = Inr r"
  by (cases v) auto

lemma safeParseJSON_malformed: "malformed JSON_parse text \<Longrightarrow> safeParseJSON JSON_parse text = JNull"
  by (auto simp: malformed_def safeParseJSON_def safeParseJSON_run_def split: option.splits)

text \<open>
  C4: for every syllabus response that parses (to a value that passes the test
  \<open>!parsed\<close>), \<open>parseSyllabus\<close> returns a course structure and no fault: the title is the
  parsed title, or "Untitled Course" when the title is missing (or falsy); the modules
  are the parsed array, or the empty sequence when the field is missing or not an array.
\<close>

theorem parseSyllabus_defaults:
  assumes "service (parseSyllabus_request f) = Inr text"
    and "safeParseJSON JSON_parse text = parsed"
    and "truthy parsed"
  shows "\<exists>cs. parseSyllabus JSON_parse service f = Inr cs
           \<and> title cs = (case js_get parsed ''title'' of
                            Inr (Some v) \<Rightarrow> if truthy v then v else JStr ''Untitled Course''
                          | _ \<Rightarrow> JStr ''Untitled Course'')
           \<and> modules cs = (case js_get parsed ''modules'' of Inr (Some (JArr xs)) \<Rightarrow> xs | _ \<Rightarrow> [])
           \<and> (js_get parsed ''title'' = Inr None \<longrightarrow> title cs = JStr ''Untitled Course'')
           \<and> ((\<forall>xs. js_get parsed ''modules'' \<noteq> Inr (Some (JArr xs))) \<longrightarrow> modules cs = [])"
proof -
  obtain t d m where g: "js_get parsed ''title'' = Inr t" "js_get parsed ''description'' = Inr d"
    "js_get parsed ''modules'' = Inr m"
    using js_get_truthy [OF assms(3)] by meson
  have p: "parseSyllabus JSON_parse service f =
          Inr \<lparr>title = js_or t (JStr ''Untitled Course''), description = js_or d (JStr []),
               modules = array_or_empty m\<rparr>"
    using assms g by (simp add: parseSyllabus_def)
  have t: "js_or t (JStr ''Untitled Course'') =
      (case t of None \<Rightarrow> JStr ''Untitled Course''
       | Some v \<Rightarrow> if truthy v then v else JStr ''Untitled Course'')"
    by (cases t) auto
  have m: "array_or_empty m = (case m of Some (JArr xs) \<Rightarrow> xs | _ \<Rightarrow> [])"
    by (cases m rule: array_or_empty.cases) auto
  have m': "(\<forall>xs. m \<noteq> Some (JArr xs)) \<longrightarrow> array_or_empty m = []"
    by (cases m rule: array_or_empty.cases) auto
  show ?thesis
    using p g t m m' by (auto split: option.splits)
qed

text \<open>A payload with a description only, and a number where the modules should be.\<close>

theorem parseSyllabus_defaults_witness:
  "\<exists>cs. parseSyllabus JSON_parse_ref (\<lambda>r. Inr (Some ''{\"description\": \"d\", \"modules\": 5}'')) ''JVBERi0=''
          = Inr cs
        \<and> title cs = JStr ''Untitled Course'' \<and> modules cs = []"
proof -
  have v: "safeParseJSON JSON_parse_ref (Some ''{\"description\": \"d\", \"modules\": 5}'')
             = JObj [(''description'', JStr ''d''), (''modules'', JNum 5)]"
    by code_simp
  have t: "truthy (JObj [(''description'', JStr ''d''), (''modules'', JNum 5)])"
    by simp
  show ?thesis
    using parseSyllabus_defaults
      [where service = "\<lambda>r. Inr (Some ''{\"description\": \"d\", \"modules\": 5}'')"
         and f = "''JVBERi0=''" and JSON_parse = JSON_parse_ref, OF refl v t]
    by auto
qed

text \<open>
  C5: when a response fails to parse even after the cleanup, or the call fails,
  \<open>parseSyllabus\<close> raises an error (the rejection, or "Failed to parse syllabus
  structure ..."), \<open>generateKnowledgeGraph\<close> returns the empty graph and \<open>generateExam\<close>
  returns the empty sequence of questions.
\<close>

theorem failed_response_outcomes:
  "(failed_response JSON_parse (service (parseSyllabus_request f)) \<longrightarrow>
      parseSyllabus JSON_parse service f =
        (case service (parseSyllabus_request f) of
           Inl e \<Rightarrow> Inl e
         | Inr text \<Rightarrow>
             Inl (Error ''Failed to parse syllabus structure. The response might be incomplete or invalid.'')))
   \<and> (failed_response JSON_parse (service (graph_request f)) \<longrightarrow>
      generateKnowledgeGraph JSON_parse service f = \<lparr>nodes = [], links = []\<rparr>)
   \<and> (failed_response JSON_parse (service (exam_request f t)) \<longrightarrow>
      generateExam JSON_parse service f t = [])"
proof (intro conjI impI)
  assume "failed_response JSON_parse (service (parseSyllabus_request f))"
  then show "parseSyllabus JSON_parse service f =
        (case service (parseSyllabus_request f) of
           Inl e \<Rightarrow> Inl e
         | Inr text \<Rightarrow>
             Inl (Error ''Failed to parse syllabus structure. The response might be incomplete or invalid.''))"
    by (auto simp: failed_response_def parseSyllabus_def safeParseJSON_malformed split: sum.splits)
next
  assume "failed_response JSON_parse (service (graph_request f))"
  then show "generateKnowledgeGraph JSON_parse service f = \<lparr>nodes = [], links = []\<rparr>"
    by (auto simp: failed_response_def generateKnowledgeGraph_def safeParseJSON_malformed split: sum.splits)
next
  assume "failed_response JSON_parse (service (exam_request f t))"
  then show "generateExam JSON_parse service f t = []"
    by (auto simp: failed_response_def generateExam_def safeParseJSON_malformed split: sum.splits)
qed

text \<open>A response cut off in the middle of the JSON text.\<close>

theorem failed_response_outcomes_witness:
  "failed_response JSON_parse_ref (Inr (Some ''{\"nodes\": [{\"id\": ''))
   \<and> parseSyllabus JSON_parse_ref (\<lambda>r. Inr (Some ''{\"nodes\": [{\"id\": '')) ''JVBERi0=''
       = Inl (Error ''Failed to parse syllabus structure. The response might be incomplete or invalid.'')
   \<and> generateKnowledgeGraph JSON_parse_ref (\<lambda>r. Inr (Some ''{\"nodes\": [{\"id\": '')) ''JVBERi0=''
       = \<lparr>nodes = [], links = []\<rparr>
   \<and> generateExam JSON_parse_ref (\<lambda>r. Inr (Some ''{\"nodes\": [{\"id\": '')) ''JVBERi0='' ''Limits'' = []"
proof -
  have h: "failed_response JSON_parse_ref (Inr (Some ''{\"nodes\": [{\"id\": ''))"
    by code_simp
  show ?thesis
    using h failed_response_outcomes
      [of JSON_parse_ref "\<lambda>r. Inr (Some ''{\"nodes\": [{\"id\": '')" "''JVBERi0=''" "''Limits''"]
    by simp
qed

section \<open>The knowledge graph\<close>

text \<open>
  C2 (as amended): the effect of the graph component hands every edge of the input to
  the link force, unchanged and in order, together with every node; it drops no edge,
  whether or not its source and target are ids of nodes. With an empty node list it
  starts no layout at all.
\<close>

theorem KnowledgeGraph_effect_passes_all_links:
  "(KnowledgeGraph_effect svgRef d = Some sim \<longrightarrow>
      sim_links sim = graph_links d \<and> sim_nodes sim = graph_nodes d \<and> graph_nodes d \<noteq> [])
   \<and> (graph_nodes d = [] \<longrightarrow> KnowledgeGraph_effect svgRef d = None)"
  by (auto simp: KnowledgeGraph_effect_def Let_def split: option.splits if_splits)

theorem KnowledgeGraph_effect_passes_all_links_witness:
  "KnowledgeGraph_effect (Some 800) demo_graph =
     Some \<lparr>sim_nodes = graph_nodes demo_graph, sim_links = graph_links demo_graph,
           link_distance = 100, charge_strength = - 300, center = (400, 200)\<rparr>
   \<and> sim_links \<lparr>sim_nodes = graph_nodes demo_graph, sim_links = graph_links demo_graph,
           link_distance = 100, charge_strength = - 300, center = (400, 200)\<rparr> = graph_links demo_graph"
proof -
  have h: "KnowledgeGraph_effect (Some 800) demo_graph =
     Some \<lparr>sim_nodes = graph_nodes demo_graph, sim_links = graph_links demo_graph,
           link_distance = 100, charge_strength = - 300, center = (400, 200)\<rparr>"
    by (simp add: KnowledgeGraph_effect_def demo_graph_def)
  show ?thesis
    using h KnowledgeGraph_effect_passes_all_links
      [of "Some 800" demo_graph "\<lparr>sim_nodes = graph_nodes demo_graph, sim_links = graph_links demo_graph,
           link_distance = 100, charge_strength = - 300, center = (400, 200)\<rparr>"]
    by simp
qed

text \<open>
  The claim as stated fails: the edge from "limits" to the unknown "series" reaches the
  link force.
\<close>

theorem KnowledgeGraph_effect_dangling_counterexample:
  "KnowledgeGraph_effect (Some 800) demo_graph =
     Some \<lparr>sim_nodes = [\<lparr>node_id = ''limits'', node_group = 1, label = ''Limits'', status = available\<rparr>],
           sim_links = [\<lparr>source = ''limits'', target = ''series'', link_value = 1\<rparr>],
           link_distance = 100, charge_strength = - 300, center = (400, 200)\<rparr>
   \<and> \<not> link_resolves [\<lparr>node_id = ''limits'', node_group = 1, label = ''Limits'', status = available\<rparr>]
          \<lparr>source = ''limits'', target = ''series'', link_value = 1\<rparr>"
  by (simp add: KnowledgeGraph_effect_def demo_graph_def link_resolves_def)

section \<open>The exam\<close>

lemma exam_step_keys:
  "fst ` set (answers (exam_step qs st ev)) \<subseteq> fst ` set (answers st) \<union> q_id ` set qs"
proof (cases ev)
  case (OptionClick idx oIdx)
  then show ?thesis
    by (auto simp: handleSelect_def dom_update)
next
  case SubmitClick
  then show ?thesis by auto
qed

lemma exam_foldl_keys:
  "fst ` set (answers (foldl (exam_step qs) st evs)) \<subseteq> fst ` set (answers st) \<union> q_id ` set qs"
proof (induction evs arbitrary: st)
  case Nil
  show ?case by simp
next
  case (Cons ev evs)
  have "fst ` set (answers (foldl (exam_step qs) (exam_step qs st ev) evs))
          \<subseteq> fst ` set (answers (exam_step qs st ev)) \<union> q_id ` set qs"
    by (rule Cons.IH)
  with exam_step_keys [of qs st ev]
  have "fst ` set (answers (foldl (exam_step qs) (exam_step qs st ev) evs))
          \<subseteq> fst ` set (answers st) \<union> q_id ` set qs"
    by blast
  then show ?case by simp
qed

lemma exam_run_keys: "fst ` set (answers (exam_run qs evs)) \<subseteq> q_id ` set qs"
  using exam_foldl_keys [of qs initial_ExamModal evs]
  by (simp add: exam_run_def initial_ExamModal_def)

lemma enabled_all_answered:
  assumes keys: "fst ` set (answers st) \<subseteq> q_id ` set qs"
    and enabled: "\<not> submit_disabled qs st"
    and q: "q \<in> set qs"
  shows "map_of (answers st) (q_id q) \<noteq> None"
proof -
  let ?K = "fst ` set (answers st)" and ?I = "q_id ` set qs"
  have "card ?K = length qs"
    using enabled by (simp add: submit_disabled_def length_remdups_card_conv)
  moreover have "card ?I \<le> length qs"
    by (metis card_image_le card_length le_trans List.finite_set)
  moreover have "card ?K \<le> card ?I"
    using keys by (simp add: card_mono)
  ultimately have "card ?I \<le> card ?K" by simp
  with keys have "?K = ?I"
    by (simp add: card_seteq)
  with q have "q_id q \<in> ?K" by blast
  then show ?thesis
    by (simp add: map_of_eq_None_iff)
qed

text \<open>
  C6 (as amended): in an exam taken from the fresh state of the modal, a click on Submit
  moves from in-progress to submitted only when every question has a selected answer,
  and does nothing while the button is disabled. An exam with zero questions meets the
  condition with no answer at all: there the button is enabled and the click submits.
\<close>

theorem submit_only_when_all_answered:
  "(\<not> submitted (exam_run qs evs) \<and> submitted (exam_step qs (exam_run qs evs) SubmitClick) \<longrightarrow>
      (\<forall>q \<in> set qs. map_of (answers (exam_run qs evs)) (q_id q) \<noteq> None))
   \<and> (submit_disabled qs (exam_run qs evs) \<longrightarrow>
        exam_step qs (exam_run qs evs) SubmitClick = exam_run qs evs)
   \<and> \<not> submit_disabled [] initial_ExamModal
   \<and> submitted (exam_step [] initial_ExamModal SubmitClick)"
proof (intro conjI impI ballI)
  fix q
  assume a: "\<not> submitted (exam_run qs evs) \<and> submitted (exam_step qs (exam_run qs evs) SubmitClick)"
    and q: "q \<in> set qs"
  from a have "\<not> submit_disabled qs (exam_run qs evs)"
    by (auto split: if_splits)
  with exam_run_keys show "map_of (answers (exam_run qs evs)) (q_id q) \<noteq> None"
    using q by (rule enabled_all_answered)
next
  assume "submit_disabled qs (exam_run qs evs)"
  then show "exam_step qs (exam_run qs evs) SubmitClick = exam_run qs evs" by simp
next
  show "\<not> submit_disabled [] initial_ExamModal"
    by (simp add: initial_ExamModal_def submit_disabled_def)
next
  show "submitted (exam_step [] initial_ExamModal SubmitClick)"
    by (simp add: initial_ExamModal_def submit_disabled_def)
qed

text \<open>The five questions, each answered by a click: Submit is accepted and all have an answer.\<close>

theorem submit_only_when_all_answered_witness:
  "\<not> submitted (exam_run demo_questions demo_clicks)
   \<and> submitted (exam_step demo_questions (exam_run demo_questions demo_clicks) SubmitClick)
   \<and> list_all (\<lambda>q. map_of (answers (exam_run demo_questions demo_clicks)) (q_id q) \<noteq> None) demo_questions"
proof -
  have h: "\<not> submitted (exam_run demo_questions demo_clicks)
      \<and> submitted (exam_step demo_questions (exam_run demo_questions demo_clicks) SubmitClick)"
    by code_simp
  then have "\<forall>q \<in> set demo_questions.
      map_of (answers (exam_run demo_questions demo_clicks)) (q_id q) \<noteq> None"
    using submit_only_when_all_answered [of demo_questions demo_clicks] by blast
  with h show ?thesis
    unfolding list_all_iff by blast
qed

text \<open>
  The claim as stated fails: with zero questions and nothing answered the Submit
  button is enabled, and the click submits.
\<close>

theorem zero_questions_counterexample:
  "\<not> submit_disabled [] (exam_run [] []) \<and> submitted (exam_step [] (exam_run [] []) SubmitClick)"
  by (simp add: exam_run_def initial_ExamModal_def submit_disabled_def)

section \<open>Decoding audio\<close>

lemma word_cat_bytes: "word_cat (ucast (drop_bit 8 w) :: 8 word) (ucast w :: 8 word) = (w :: 16 word)"
  by (rule bit_word_eqI) (auto simp: bit_simps)

lemma int16_elements_pcm16_le: "int16_elements (pcm16_le samples) = samples"
  by (induction samples) (simp_all add: pcm16_le_def word_cat_bytes)

lemma length_pcm16_le: "length (pcm16_le samples) = 2 * length samples"
  by (induction samples) (simp_all add: pcm16_le_def)

lemma Int16Array_pcm16_le: "Int16Array (pcm16_le samples) = Inr samples"
  by (simp add: Int16Array_def length_pcm16_le int16_elements_pcm16_le)

lemma fill_channel_eq:
  "i \<le> n \<Longrightarrow> length cd = n \<Longrightarrow> length d = n \<Longrightarrow>
   fill_channel d n i cd = take i cd @ map (\<lambda>w. rat_of_int (sint w) / 32768) (drop i d)"
proof (induction d n i cd rule: fill_channel.induct)
  case (1 d n i cd)
  show ?case
  proof (cases "i < n")
    case True
    let ?v = "rat_of_int (sint (d ! i)) / 32768"
    have "fill_channel d n i cd = fill_channel d n (Suc i) (cd[i := ?v])"
      using True by (subst fill_channel.simps) simp
    also have "\<dots> = take (Suc i) (cd[i := ?v]) @ map (\<lambda>w. rat_of_int (sint w) / 32768) (drop (Suc i) d)"
      using True "1.prems" by (intro "1.IH") simp_all
    also have "take (Suc i) (cd[i := ?v]) = take i cd @ [?v]"
      using True "1.prems" by (simp add: take_Suc_conv_app_nth)
    also have "(take i cd @ [?v]) @ map (\<lambda>w. rat_of_int (sint w) / 32768) (drop (Suc i) d)
        = take i cd @ map (\<lambda>w. rat_of_int (sint w) / 32768) (drop i d)"
      using True "1.prems" by (simp add: Cons_nth_drop_Suc [symmetric])
    finally show ?thesis .
  next
    case False
    with "1.prems" have "i = n" by simp
    with "1.prems" show ?thesis by (subst fill_channel.simps) simp
  qed
qed

lemma sample_range: "- 1 \<le> rat_of_int (sint (w :: 16 word)) / 32768 \<and> rat_of_int (sint w) / 32768 < 1"
proof -
  have "- 32768 \<le> sint w" "sint w < 32768"
    using sint_ge [of w] sint_lt [of w] by simp_all
  then have "- 32768 \<le> rat_of_int (sint w)" "rat_of_int (sint w) < 32768"
    by linarith+
  then show ?thesis by (simp add: field_simps)
qed

lemma decode_pcm16:
  assumes "atob base64String = Inr binaryString"
    and "bytes_of_binary binaryString = pcm16_le samples"
    and "createBuffer 1 (length samples) rate =
           Inr \<lparr>sampleRate = rate, channels = [replicate (length samples) 0]\<rparr>"
  shows "decodeAudioData atob createBuffer base64String rate =
           Inr \<lparr>sampleRate = rate, channels = [map (\<lambda>w. rat_of_int (sint w) / 32768) samples]\<rparr>"
proof -
  have "fill_channel samples (length samples) 0 (replicate (length samples) 0)
          = map (\<lambda>w. rat_of_int (sint w) / 32768) samples"
    by (simp add: fill_channel_eq)
  then show ?thesis
    using assms by (simp add: decodeAudioData_def Int16Array_pcm16_le)
qed

lemma demo_atob: "atob_ref ''AAAAQACA/38='' = Inr [0, 0, 0, 64, 0, 128, 255, 127]"
  by (simp add: atob_ref_def b64_alphabet_def b64_index_def Let_def)

lemma demo_bytes: "bytes_of_binary [0, 0, 0, 64, 0, 128, 255, 127] = pcm16_le [0, 16384, - 32768, 32767]"
  by (simp add: bytes_of_binary_def pcm16_le_def drop_bit_eq_div)

lemma demo_createBuffer:
  "createBuffer_ref 1 (length [0, 16384, - 32768, 32767 :: 16 word]) 24000 =
     Inr \<lparr>sampleRate = 24000, channels = [replicate (length [0, 16384, - 32768, 32767 :: 16 word]) 0]\<rparr>"
  by (simp add: createBuffer_ref_def)

text \<open>
  C8: for every stream of N 16-bit samples, given in base64 as its bytes, low byte
  first (the platform's \<open>atob\<close> decodes the text to those bytes, and its \<open>createBuffer\<close>
  allocates the buffer asked for), \<open>decodeAudioData\<close> at the default rate returns a
  buffer of rate 24000 whose one channel has exactly N samples, so that it lasts
  N / 24000 seconds; sample i is the i-th 16-bit value, read as signed, divided by
  32768; every sample lies between -1 and 1.
\<close>

theorem decodeAudioData_pcm16:
  assumes "atob base64String = Inr binaryString"
    and "bytes_of_binary binaryString = pcm16_le samples"
    and "createBuffer 1 (length samples) 24000 =
           Inr \<lparr>sampleRate = 24000, channels = [replicate (length samples) 0]\<rparr>"
  shows "\<exists>buffer channelData.
           decodeAudioData atob createBuffer base64String 24000 = Inr buffer
           \<and> sampleRate buffer = 24000 \<and> channels buffer = [channelData]
           \<and> channelData = map (\<lambda>w. rat_of_int (sint w) / 32768) samples
           \<and> length channelData = length samples
           \<and> (\<forall>i < length samples. channelData ! i = rat_of_int (sint (samples ! i)) / 32768)
           \<and> (\<forall>x \<in> set channelData. - 1 \<le> x \<and> x \<le> 1)"
proof -
  let ?cd = "map (\<lambda>w. rat_of_int (sint w) / 32768) samples"
  have "decodeAudioData atob createBuffer base64String 24000 =
          Inr \<lparr>sampleRate = 24000, channels = [?cd]\<rparr>"
    using assms by (rule decode_pcm16)
  moreover have "\<forall>x \<in> set ?cd. - 1 \<le> x \<and> x \<le> 1"
    using sample_range by (auto intro: less_imp_le)
  ultimately show ?thesis by simp
qed

text \<open>The four samples 0, 16384, -32768 and 32767 decode to 0, 1/2, -1 and 32767/32768.\<close>

theorem decodeAudioData_pcm16_witness:
  "atob_ref ''AAAAQACA/38='' = Inr [0, 0, 0, 64, 0, 128, 255, 127]
   \<and> bytes_of_binary [0, 0, 0, 64, 0, 128, 255, 127] = pcm16_le [0, 16384, - 32768, 32767]
   \<and> (\<exists>buffer. decodeAudioData atob_ref createBuffer_ref ''AAAAQACA/38='' 24000 = Inr buffer
         \<and> sampleRate buffer = 24000 \<and> channels buffer = [[0, 1 / 2, - 1, 32767 / 32768]])"
proof -
  obtain buffer channelData where
    b: "decodeAudioData atob_ref createBuffer_ref ''AAAAQACA/38='' 24000 = Inr buffer"
      "sampleRate buffer = 24000" "channels buffer = [channelData]"
      "channelData = map (\<lambda>w. rat_of_int (sint w) / 32768) [0, 16384, - 32768, 32767 :: 16 word]"
    using decodeAudioData_pcm16 [where atob = atob_ref and createBuffer = createBuffer_ref
        and base64String = "''AAAAQACA/38=''" and samples = "[0, 16384, - 32768, 32767]",
        OF demo_atob demo_bytes demo_createBuffer]
    by blast
  from b(4) have "channelData = [0, 1 / 2, - 1, 32767 / 32768]"
    by simp
  with b demo_atob demo_bytes show ?thesis by simp
qed

section \<open>Depth changes and lesson responses\<close>

text \<open>
  C1 (as amended): after two depth changes in a row for the same active module, the
  lesson content is the result of the request whose response arrives last. When the
  responses arrive in the order of the requests that is the result of the second
  request; when the response of the first request arrives after that of the second, it
  is the result of the first request: no response in flight is discarded.
\<close>

theorem depth_changes_last_arrival_wins:
  assumes "activeModule s = Some m" and "syllabusFile s = Some f" and "f \<noteq> []"
    and "lessons_in_flight s = []"
    and "d1 \<noteq> contentDepth s" and "d2 \<noteq> d1"
    and "generateLessonContent (gemini p) f (module_title m) (module_topics m) d1 = Inr r1"
    and "generateLessonContent (gemini p) f (module_title m) (module_topics m) d2 = Inr r2"
  shows "lessonContent (run p s [SetContentDepth d1, SetContentDepth d2, LessonSettled 0, LessonSettled 0]) = r2
       \<and> lessonContent (run p s [SetContentDepth d1, SetContentDepth d2, LessonSettled 1, LessonSettled 0]) = r1"
  using assms
  by (simp add: run_def setContentDepth_def depth_effect_def lesson_settled_def Let_def)

theorem depth_changes_last_arrival_wins_witness:
  "lessonContent (run demo_platform demo_App
      [SetContentDepth SUMMARY, SetContentDepth DEEP_DIVE, LessonSettled 0, LessonSettled 0])
     = ''gemini-3-pro-preview''
   \<and> lessonContent (run demo_platform demo_App
      [SetContentDepth SUMMARY, SetContentDepth DEEP_DIVE, LessonSettled 1, LessonSettled 0])
     = ''gemini-3-flash-preview''"
proof -
  have a: "activeModule demo_App = Some demo_module" "syllabusFile demo_App = Some ''JVBERi0=''"
    "''JVBERi0='' \<noteq> []" "lessons_in_flight demo_App = []" "SUMMARY \<noteq> contentDepth demo_App"
    "DEEP_DIVE \<noteq> SUMMARY"
    by (simp_all add: demo_App_def initial_App_def)
  have r1: "generateLessonContent (gemini demo_platform) ''JVBERi0='' (module_title demo_module)
      (module_topics demo_module) SUMMARY = Inr ''gemini-3-flash-preview''"
    by code_simp
  have r2: "generateLessonContent (gemini demo_platform) ''JVBERi0='' (module_title demo_module)
      (module_topics demo_module) DEEP_DIVE = Inr ''gemini-3-pro-preview''"
    by code_simp
  show ?thesis
    using depth_changes_last_arrival_wins [OF a r1 r2] .
qed

text \<open>
  The claim as stated fails: the depth goes from Standard to Summary and then to Deep
  Dive; the response for Deep Dive arrives first and the response for Summary after it.
  The lesson content ends as the result of the first request (the reply of the flash
  model), not as the result of the second (the reply of the pro model).
\<close>

theorem depth_changes_counterexample:
  "generateLessonContent (gemini demo_platform) ''JVBERi0='' ''Limits'' [''epsilon'', ''delta''] DEEP_DIVE
     = Inr ''gemini-3-pro-preview''
   \<and> contentDepth (run demo_platform demo_App
        [SetContentDepth SUMMARY, SetContentDepth DEEP_DIVE, LessonSettled 1, LessonSettled 0])
     = DEEP_DIVE
   \<and> lessonContent (run demo_platform demo_App
        [SetContentDepth SUMMARY, SetContentDepth DEEP_DIVE, LessonSettled 1, LessonSettled 0])
     = ''gemini-3-flash-preview''"
  by code_simp

section \<open>Audio playback\<close>

lemma sounding_playAudioBuffer:
  "sounding (snd (playAudioBuffer buffer ctx)) =
     sounding ctx @ [\<lparr>source_buffer = Some buffer, connected = True, playback = Playing\<rparr>]"
  by (simp add: playAudioBuffer_def sounding_def)

lemma audioContextRef_setContentDepth: "audioContextRef (setContentDepth d s) = audioContextRef s"
  by (simp add: setContentDepth_def depth_effect_def split: option.splits)

lemma audioContextRef_handleModuleSelect: "audioContextRef (handleModuleSelect m s) = audioContextRef s"
  by (simp add: handleModuleSelect_def Let_def split: option.splits)

lemma audioContextRef_lesson_settled: "audioContextRef (lesson_settled p i s) = audioContextRef s"
  by (simp add: lesson_settled_def Let_def split: sum.splits)

lemma sounding_count_initAudio: "sounding_count (initAudio s) = sounding_count s"
  by (simp add: initAudio_def sounding_count_def sounding_def split: option.splits)

lemma audioContextRef_click: "audioContextRef (playAudioTutor_click s) = audioContextRef s"
  by (simp add: playAudioTutor_click_def)

lemma sounding_count_settled: "sounding_count s \<le> sounding_count (playAudioTutor_settled p s)"
  by (auto simp: playAudioTutor_settled_def sounding_count_def sounding_playAudioBuffer Let_def
      split: option.splits sum.splits)

text \<open>
  C9 (as amended): a playback request that obtains audio starts a new source and stops
  nothing: the sources of the context stay as they were, the new one sounds beside
  them, and the number of sounding sources grows by one. No step of the application
  other than the end of a source's own buffer lowers the number of sounding sources.
\<close>

theorem playback_adds_a_sounding_source:
  "(speech_in_flight s = Some textToRead \<and> speech p textToRead = Inr (Some b64) \<and> b64 \<noteq> []
      \<and> audioContextRef s = Some ctx
      \<and> decodeAudioData (window_atob p) (context_createBuffer p) b64 24000 = Inr buffer \<longrightarrow>
        audioContextRef (playAudioTutor_settled p s) =
          Some (ctx @ [\<lparr>source_buffer = Some buffer, connected = True, playback = Playing\<rparr>])
        \<and> sounding_count (playAudioTutor_settled p s) = Suc (sounding_count s))
   \<and> ((\<forall>i. ev \<noteq> SourceEnded i) \<longrightarrow> sounding_count s \<le> sounding_count (step p s ev))"
proof (intro conjI impI)
  assume a: "speech_in_flight s = Some textToRead \<and> speech p textToRead = Inr (Some b64) \<and> b64 \<noteq> []
      \<and> audioContextRef s = Some ctx
      \<and> decodeAudioData (window_atob p) (context_createBuffer p) b64 24000 = Inr buffer"
  then show r: "audioContextRef (playAudioTutor_settled p s) =
          Some (ctx @ [\<lparr>source_buffer = Some buffer, connected = True, playback = Playing\<rparr>])"
    by (simp add: playAudioTutor_settled_def generateAudioLesson_def playAudioBuffer_def Let_def)
  have "Some (ctx @ [\<lparr>source_buffer = Some buffer, connected = True, playback = Playing\<rparr>])
      = Some (snd (playAudioBuffer buffer ctx))"
    by (simp add: playAudioBuffer_def)
  with r a show "sounding_count (playAudioTutor_settled p s) = Suc (sounding_count s)"
    by (simp add: sounding_count_def sounding_playAudioBuffer)
next
  assume "\<forall>i. ev \<noteq> SourceEnded i"
  then show "sounding_count s \<le> sounding_count (step p s ev)"
    by (cases ev)
      (simp_all add: sounding_count_def audioContextRef_setContentDepth
        audioContextRef_handleModuleSelect audioContextRef_lesson_settled audioContextRef_click
        sounding_count_initAudio [unfolded sounding_count_def]
        sounding_count_settled [unfolded sounding_count_def])
qed

lemma demo_decode:
  "decodeAudioData atob_ref createBuffer_ref ''AAAAQACA/38='' 24000 =
     Inr \<lparr>sampleRate = 24000, channels = [[0, 1 / 2, - 1, 32767 / 32768]]\<rparr>"
  using decode_pcm16 [where atob = atob_ref and createBuffer = createBuffer_ref
        and base64String = "''AAAAQACA/38=''" and samples = "[0, 16384, - 32768, 32767]" and rate = 24000,
        OF demo_atob demo_bytes demo_createBuffer]
  by simp

lemma demo_first_request:
  "run demo_platform demo_App [WindowClick, AudioTutorClick] =
     demo_App\<lparr>loadingAudio := True, audioContextRef := Some [], speech_in_flight := Some ''# Limits''\<rparr>"
  by (simp add: run_def initAudio_def playAudioTutor_click_def demo_App_def initial_App_def)

text \<open>The first playback of a session: one source sounds afterwards.\<close>

theorem playback_adds_a_sounding_source_witness:
  "sounding_count (run demo_platform demo_App [WindowClick, AudioTutorClick]) = 0
   \<and> sounding_count (playAudioTutor_settled demo_platform
         (run demo_platform demo_App [WindowClick, AudioTutorClick])) = 1"
proof -
  let ?s = "run demo_platform demo_App [WindowClick, AudioTutorClick]"
  have h: "speech_in_flight ?s = Some ''# Limits''" "audioContextRef ?s = Some []"
    by (simp_all add: demo_first_request)
  have t: "speech demo_platform ''# Limits'' = Inr (Some ''AAAAQACA/38='')" "''AAAAQACA/38='' \<noteq> []"
    by (simp_all add: demo_platform_def demo_speech_def)
  have d: "decodeAudioData (window_atob demo_platform) (context_createBuffer demo_platform)
      ''AAAAQACA/38='' 24000 = Inr \<lparr>sampleRate = 24000, channels = [[0, 1 / 2, - 1, 32767 / 32768]]\<rparr>"
    using demo_decode by (simp add: demo_platform_def)
  have z: "sounding_count ?s = 0"
    using h(2) by (simp add: sounding_count_def sounding_def)
  have "sounding_count (playAudioTutor_settled demo_platform ?s) = Suc (sounding_count ?s)"
    using playback_adds_a_sounding_source
      [of ?s "''# Limits''" demo_platform "''AAAAQACA/38=''" "[]"
         "\<lparr>sampleRate = 24000, channels = [[0, 1 / 2, - 1, 32767 / 32768]]\<rparr>"]
      h t d
    by blast
  with z show ?thesis by simp
qed

text \<open>
  The claim as stated fails: two playback requests, the second made while the first
  buffer still plays, leave two sources sounding at the same time.
\<close>

theorem overlapping_playback_counterexample:
  "sounding_count (run demo_platform demo_App
     [WindowClick, AudioTutorClick, SpeechSettled, AudioTutorClick, SpeechSettled]) = 2"
  by (simp add: run_def initAudio_def playAudioTutor_click_def playAudioTutor_settled_def
      generateAudioLesson_def demo_App_def initial_App_def demo_platform_def demo_speech_def
      demo_decode playAudioBuffer_def sounding_count_def sounding_def)

end
